theory Spec2Isabelle
  imports Main Complex_Main
begin

section \<open>Python strings\<close>

text \<open>
  The scripts under \<^verbatim>\<open>src/experiments\<close> are Python. A \<^verbatim>\<open>str\<close> is modelled as a
  \<^typ>\<open>string\<close> of ASCII characters. The string methods the scripts call are
  written out below with the behaviour CPython documents for them.
\<close>

definition startswith :: "string \<Rightarrow> string \<Rightarrow> bool" where
  "startswith s p = (take (length p) s = p)"

definition endswith :: "string \<Rightarrow> string \<Rightarrow> bool" where
  "endswith s p = (length p \<le> length s \<and> drop (length s - length p) s = p)"

text \<open>\<^verbatim>\<open>s.split(sep)\<close> for a one-character separator: never an empty list, empty
  fields are kept.\<close>

fun py_split :: "char \<Rightarrow> string \<Rightarrow> string list" where
  "py_split sep [] = [[]]"
| "py_split sep (c # cs) =
     (if c = sep then [] # py_split sep cs
      else (case py_split sep cs of
              [] \<Rightarrow> [[c]]
            | w # ws \<Rightarrow> (c # w) # ws))"

text \<open>The ASCII characters \<^verbatim>\<open>str.strip()\<close> and \<^verbatim>\<open>int()\<close> treat as white space:
  TAB, LF, VT, FF, CR, FS, GS, RS, US and the space.\<close>

definition py_isspace :: "char \<Rightarrow> bool" where
  "py_isspace c = (of_char c \<in> {9, 10, 11, 12, 13, 28, 29, 30, 31, 32 :: nat})"

definition py_strip :: "string \<Rightarrow> string" where
  "py_strip s = rev (dropWhile py_isspace (rev (dropWhile py_isspace s)))"

definition is_digit :: "char \<Rightarrow> bool" where
  "is_digit c = (48 \<le> (of_char c :: nat) \<and> (of_char c :: nat) \<le> 57)"

definition digit_val :: "char \<Rightarrow> nat" where
  "digit_val c = of_char c - 48"

text \<open>The digits of a decimal literal as \<^verbatim>\<open>int()\<close> accepts them: at least one digit,
  single underscores allowed between digits only.\<close>

fun int_body_ok :: "string \<Rightarrow> bool" where
  "int_body_ok [] = False"
| "int_body_ok [c] = is_digit c"
| "int_body_ok (c # d # r) =
     (is_digit c \<and> (if d = CHR ''_'' then int_body_ok r else int_body_ok (d # r)))"

definition decimal_value :: "string \<Rightarrow> nat" where
  "decimal_value s = foldl (\<lambda>a c. 10 * a + digit_val c) 0 s"

definition int_body :: "string \<Rightarrow> int option" where
  "int_body s =
     (if int_body_ok s then Some (int (decimal_value (filter (\<lambda>c. c \<noteq> CHR ''_'') s)))
      else None)"

text \<open>\<^verbatim>\<open>int(s)\<close> in base ten; \<^const>\<open>None\<close> stands for the \<^verbatim>\<open>ValueError\<close>.\<close>

definition py_int :: "string \<Rightarrow> int option" where
  "py_int s =
     (case py_strip s of
        [] \<Rightarrow> None
      | c # r \<Rightarrow>
          if c = CHR ''-'' then map_option uminus (int_body r)
          else if c = CHR ''+'' then int_body r
          else int_body (c # r))"

text \<open>\<^verbatim>\<open>os.path.basename\<close> (POSIX): what follows the last slash.\<close>

definition basename :: "string \<Rightarrow> string" where
  "basename p = rev (takeWhile (\<lambda>c. c \<noteq> CHR ''/'') (rev p))"

section \<open>The file name parser of the glob-based extractor\<close>

text \<open>
  \<^verbatim>\<open>parse_filename\<close> of \<^verbatim>\<open>extract_tdb_metrics.py\<close>. The loop that looks for the
  configuration id leaves at the first part that starts with \<^verbatim>\<open>id\<close>, whether or not
  \<^verbatim>\<open>int\<close> accepts what follows.
\<close>

fun find_config_id :: "string list \<Rightarrow> int option" where
  "find_config_id [] = None"
| "find_config_id (p # ps) =
     (if startswith p ''id'' then py_int (drop 2 p) else find_config_id ps)"

definition parse_filename ::
  "string \<Rightarrow> string option \<times> int option \<times> string option \<times> int option" where
  "parse_filename path =
     (let base = basename path in
      if \<not> startswith base ''DRAMSys_'' \<or> \<not> endswith base ''.tdb''
      then (None, None, None, None)
      else
        let core = drop (length ''DRAMSys_'') (take (length base - length ''.tdb'') base);
            parts = py_split (CHR ''_'') core
        in if length parts < 3 then (None, None, None, None)
           else
             let tier = parts ! 0 @ ''_'' @ parts ! 1;
                 config_id = find_config_id parts;
                 sim_id = core;
                 lst = last parts;
                 channel = (if startswith lst ''ch'' then py_int (drop 2 lst) else None)
             in (Some tier, config_id, Some sim_id, channel))"

text \<open>Decimal rendering of a non-negative integer (\<^verbatim>\<open>str(n)\<close>, \<^verbatim>\<open>f"{n}"\<close>).\<close>

function str_of_nat :: "nat \<Rightarrow> string" where
  "str_of_nat n =
     (if n < 10 then [char_of (48 + n)]
      else str_of_nat (n div 10) @ [char_of (48 + n mod 10)])"
  by pat_completeness auto
termination
  by (relation "measure id") auto

declare str_of_nat.simps [simp del]

section \<open>Python values, exceptions and the sqlite3 interface\<close>

text \<open>
  The objects \<^verbatim>\<open>sqlite3\<close> hands to Python: \<^verbatim>\<open>None\<close> for NULL, \<^verbatim>\<open>int\<close> for INTEGER,
  \<^verbatim>\<open>float\<close> for REAL and \<^verbatim>\<open>str\<close> for TEXT. A float is modelled by the rational number
  it stands for; the rounding of IEEE doubles is not part of the model.
\<close>

datatype pyval = PyNone | PyInt int | PyFloat rat | PyStr string

text \<open>Both errors are subclasses of \<^verbatim>\<open>sqlite3.Error\<close>; \<^verbatim>\<open>DatabaseError\<close> stands for
  every subclass other than \<^verbatim>\<open>OperationalError\<close>.\<close>

datatype sqlite_error = OperationalError | DatabaseError

datatype py_exn = SqliteError sqlite_error | IndexError | SystemExit

text \<open>One row of \<^verbatim>\<open>PRAGMA table_info\<close>: the tuple
  \<^verbatim>\<open>(cid, name, type, notnull, dflt_value, pk)\<close>; \<^verbatim>\<open>row[1]\<close> is \<open>ci_name\<close>.\<close>

record column_info =
  ci_cid :: nat
  ci_name :: string
  ci_type :: string
  ci_notnull :: int
  ci_dflt_value :: pyval
  ci_pk :: int

text \<open>The statements with one result column that the scripts execute, the table and
  column names being the holes of the statement text:
  \<^verbatim>\<open>SELECT AVG(c) FROM t\<close>, \<^verbatim>\<open>SELECT MAX(c) FROM t\<close>, \<^verbatim>\<open>SELECT COUNT(*) FROM t\<close>,
  \<^verbatim>\<open>SELECT COUNT(*) FROM t WHERE c LIKE 'p%'\<close> and
  \<^verbatim>\<open>SELECT COUNT(*) FROM t WHERE c IN (v, ...)\<close>.\<close>

datatype query =
    SelectAvg string string
  | SelectMax string string
  | SelectCount string
  | SelectCountLike string string string
  | SelectCountIn string string "string list"

text \<open>
  An open connection, as the scripts see it: what executing a statement and fetching
  gives. Every statement the scripts run only reads, so a connection is a function of
  the statement. A failing call raises a subclass of \<^verbatim>\<open>sqlite3.Error\<close>.
  \<^item> \<open>table_info t\<close>: all rows of \<^verbatim>\<open>PRAGMA table_info(t)\<close>;
  \<^item> \<open>select_avg_max c t\<close>: \<^verbatim>\<open>fetchone()\<close> after \<^verbatim>\<open>SELECT AVG(c), MAX(c) FROM t\<close>, a
    pair when there is a row;
  \<^item> \<open>select_value q\<close>: \<^verbatim>\<open>fetchone()\<close> after a one-column statement, the row \<^verbatim>\<open>(v,)\<close>
    given as \<open>Some v\<close>;
  \<^item> \<open>select_star t\<close>: \<^verbatim>\<open>fetchone()\<close> after \<^verbatim>\<open>SELECT * FROM t\<close>.
\<close>

record cursor =
  table_info :: "string \<Rightarrow> sqlite_error + column_info list"
  select_avg_max :: "string \<Rightarrow> string \<Rightarrow> sqlite_error + (pyval \<times> pyval) option"
  select_value :: "query \<Rightarrow> sqlite_error + pyval option"
  select_star :: "string \<Rightarrow> sqlite_error + pyval list option"

text \<open>\<^verbatim>\<open>xs[-1]\<close>: an \<^verbatim>\<open>IndexError\<close> on the empty list.\<close>

definition py_last :: "'a list \<Rightarrow> py_exn + 'a" where
  "py_last xs = (if xs = [] then Inl IndexError else Inr (last xs))"

section \<open>The generic aggregate reader and the glob-based extractor\<close>

text \<open>The body of the \<^verbatim>\<open>try\<close> block of \<^verbatim>\<open>get_numeric_agg\<close>.\<close>

definition get_numeric_agg_try :: "cursor \<Rightarrow> string \<Rightarrow> py_exn + (pyval \<times> pyval)" where
  "get_numeric_agg_try conn table_name =
     (case table_info conn table_name of
        Inl e \<Rightarrow> Inl (SqliteError e)
      | Inr info \<Rightarrow>
          let cols = map ci_name info in
          if cols = [] then Inr (PyNone, PyNone)
          else (case py_last cols of
                  Inl x \<Rightarrow> Inl x
                | Inr value_col \<Rightarrow>
                    (case select_avg_max conn value_col table_name of
                       Inl e \<Rightarrow> Inl (SqliteError e)
                     | Inr None \<Rightarrow> Inr (PyNone, PyNone)
                     | Inr (Some row) \<Rightarrow> Inr (fst row, snd row))))"

text \<open>\<^verbatim>\<open>except sqlite3.Error: return (None, None)\<close>; any other exception goes on.\<close>

definition get_numeric_agg :: "cursor \<Rightarrow> string \<Rightarrow> py_exn + (pyval \<times> pyval)" where
  "get_numeric_agg conn table_name =
     (case get_numeric_agg_try conn table_name of
        Inl (SqliteError e) \<Rightarrow> Inr (PyNone, PyNone)
      | Inl x \<Rightarrow> Inl x
      | Inr r \<Rightarrow> Inr r)"








section \<open>The named-metric reader and the manifest-based extractor\<close>

text \<open>A \<^verbatim>\<open>dict\<close> with string keys, in insertion order; assigning to a key that is
  there keeps its place.\<close>

type_synonym dict = "(string \<times> pyval) list"

fun dict_set :: "dict \<Rightarrow> string \<Rightarrow> pyval \<Rightarrow> dict" where
  "dict_set [] k v = [(k, v)]"
| "dict_set ((k', v') # d) k v =
     (if k' = k then (k', v) # d else (k', v') # dict_set d k v)"

definition dict_of_pairs :: "(string \<times> pyval) list \<Rightarrow> dict" where
  "dict_of_pairs ps = foldl (\<lambda>d kv. dict_set d (fst kv) (snd kv)) [] ps"

definition dict_update :: "dict \<Rightarrow> dict \<Rightarrow> dict" where
  "dict_update d other = foldl (\<lambda>d kv. dict_set d (fst kv) (snd kv)) d other"

text \<open>Sequencing: an exception of the first computation ends the whole.\<close>

definition then_do :: "py_exn + 'a \<Rightarrow> ('a \<Rightarrow> py_exn + 'b) \<Rightarrow> py_exn + 'b" where
  "then_do m f = (case m of Inl x \<Rightarrow> Inl x | Inr v \<Rightarrow> f v)"

text \<open>\<^verbatim>\<open>safe_single_value\<close> of \<^verbatim>\<open>extractor.py\<close>: an error of \<^verbatim>\<open>execute\<close> is not caught.\<close>

definition safe_single_value :: "cursor \<Rightarrow> query \<Rightarrow> py_exn + pyval" where
  "safe_single_value cur q =
     (case select_value cur q of
        Inl e \<Rightarrow> Inl (SqliteError e)
      | Inr row \<Rightarrow>
          Inr (case row of
                 None \<Rightarrow> PyNone
               | Some v \<Rightarrow> if v \<noteq> PyNone then v else PyNone))"

text \<open>The body of the \<^verbatim>\<open>try\<close> block of lines 53 to 59, and the handler of lines 60 to
  67.\<close>

definition like_counts :: "cursor \<Rightarrow> py_exn + (pyval \<times> pyval)" where
  "like_counts cur =
     then_do (safe_single_value cur (SelectCountLike ''Transactions'' ''Command'' ''READ''))
       (\<lambda>reads.
     then_do (safe_single_value cur (SelectCountLike ''Transactions'' ''Command'' ''WRITE''))
       (\<lambda>writes. Inr (reads, writes)))"

definition in_counts :: "cursor \<Rightarrow> py_exn + (pyval \<times> pyval)" where
  "in_counts cur =
     then_do (safe_single_value cur (SelectCountIn ''Transactions'' ''Command'' [''R'', ''READ'']))
       (\<lambda>reads.
     then_do (safe_single_value cur (SelectCountIn ''Transactions'' ''Command'' [''W'', ''WRITE'']))
       (\<lambda>writes. Inr (reads, writes)))"

definition read_write_counts :: "cursor \<Rightarrow> py_exn + (pyval \<times> pyval)" where
  "read_write_counts cur =
     (case like_counts cur of
        Inl (SqliteError OperationalError) \<Rightarrow> in_counts cur
      | Inl x \<Rightarrow> Inl x
      | Inr r \<Rightarrow> Inr r)"

text \<open>Lines 70 to 76: the first row of \<^verbatim>\<open>GeneralInfo\<close> keyed by the column names.\<close>

definition general_info :: "cursor \<Rightarrow> py_exn + dict" where
  "general_info cur =
     (case select_star cur ''GeneralInfo'' of
        Inl e \<Rightarrow> Inl (SqliteError e)
      | Inr None \<Rightarrow> Inr []
      | Inr (Some gi) \<Rightarrow>
          (case table_info cur ''GeneralInfo'' of
             Inl e \<Rightarrow> Inl (SqliteError e)
           | Inr info \<Rightarrow> Inr (dict_of_pairs (zip (map ci_name info) gi))))"

text \<open>Lines 94 to 96.\<close>

definition add_general_info :: "dict \<Rightarrow> dict \<Rightarrow> dict" where
  "add_general_info gi m =
     foldl (\<lambda>m key. case map_of gi key of None \<Rightarrow> m | Some v \<Rightarrow> dict_set m (''GI_'' @ key) v)
       m [''clk'', ''UnitOfTime'', ''MCconfig'', ''Memspec'', ''Traces'']"

text \<open>\<^verbatim>\<open>extract_metrics_from_db\<close>; the argument is what \<^verbatim>\<open>sqlite3.connect(db_path)\<close>
  gives.\<close>

definition extract_metrics_from_db :: "sqlite_error + cursor \<Rightarrow> py_exn + dict" where
  "extract_metrics_from_db db =
     then_do (case db of Inl e \<Rightarrow> Inl (SqliteError e) | Inr cur \<Rightarrow> Inr cur) (\<lambda>cur.
     then_do (safe_single_value cur (SelectAvg ''AverageBandwidth'' ''Bandwidth'')) (\<lambda>avg_bw.
     then_do (safe_single_value cur (SelectMax ''AverageBandwidth'' ''Bandwidth'')) (\<lambda>max_bw.
     then_do (safe_single_value cur (SelectMax ''Time'' ''Bandwidth'')) (\<lambda>sim_time.
     then_do (safe_single_value cur (SelectAvg ''AveragePower'' ''Power'')) (\<lambda>avg_power.
     then_do (safe_single_value cur (SelectMax ''AveragePower'' ''Power'')) (\<lambda>max_power.
     then_do (safe_single_value cur (SelectAvg ''AverageBufferDepth'' ''BufferDepth'')) (\<lambda>avg_buf_depth.
     then_do (safe_single_value cur (SelectMax ''AverageBufferDepth'' ''BufferDepth'')) (\<lambda>max_buf_depth.
     then_do (safe_single_value cur (SelectCount ''Transactions'')) (\<lambda>total_tx.
     then_do (read_write_counts cur) (\<lambda>rw.
     then_do (general_info cur) (\<lambda>gi.
       Inr (add_general_info gi
         [(''avg_bw_Gbps'', avg_bw),
          (''max_bw_Gbps'', max_bw),
          (''sim_time_units'', sim_time),
          (''avg_power_W'', avg_power),
          (''max_power_W'', max_power),
          (''avg_buf_depth'', avg_buf_depth),
          (''max_buf_depth'', max_buf_depth),
          (''total_transactions'', total_tx),
          (''read_transactions'', fst rw),
          (''write_transactions'', snd rw)]))))))))))))"

text \<open>\<^verbatim>\<open>pathlib\<close> (POSIX): \<^verbatim>\<open>Path(p).name\<close> is the last component, empty and \<^verbatim>\<open>.\<close>
  components dropped; \<^verbatim>\<open>Path(p).stem\<close> cuts the name at its last dot unless that dot
  is the first or the last character.\<close>

definition path_name :: "string \<Rightarrow> string" where
  "path_name p =
     (case filter (\<lambda>c. c \<noteq> [] \<and> c \<noteq> ''.'') (py_split (CHR ''/'') p) of
        [] \<Rightarrow> []
      | c # cs \<Rightarrow> last (c # cs))"

definition rfind :: "char \<Rightarrow> string \<Rightarrow> nat option" where
  "rfind c s =
     (if c \<in> set s then Some (length s - 1 - length (takeWhile (\<lambda>d. d \<noteq> c) (rev s)))
      else None)"

definition path_stem :: "string \<Rightarrow> string" where
  "path_stem p =
     (let name = path_name p in
      case rfind (CHR ''.'') name of
        None \<Rightarrow> name
      | Some i \<Rightarrow> if 0 < i \<and> i + 1 < length name then take i name else name)"

record manifest_row =
  tier :: string
  config_id :: string
  trace_name :: string
  simconfig :: string

definition sim_id_of :: "manifest_row \<Rightarrow> string" where
  "sim_id_of row = tier row @ ''_id'' @ config_id row @ ''_'' @ path_stem (trace_name row)"

definition db_name :: "manifest_row \<Rightarrow> nat \<Rightarrow> string" where
  "db_name row ch =
     ''DRAMSys_'' @ sim_id_of row @ ''_'' @ path_stem (simconfig row) @ ''_ch''
       @ str_of_nat ch @ ''.tdb''"

definition fieldnames :: "string list" where
  "fieldnames =
     [''tier'', ''config_id'', ''sim_id'', ''trace_name'', ''simconfig'', ''channel'']
     @ [''avg_bw_Gbps'', ''max_bw_Gbps'', ''sim_time_units'', ''avg_power_W'', ''max_power_W'',
        ''avg_buf_depth'', ''max_buf_depth'', ''total_transactions'', ''read_transactions'',
        ''write_transactions'', ''GI_clk'', ''GI_UnitOfTime'', ''GI_MCconfig'', ''GI_Memspec'',
        ''GI_Traces'']"

text \<open>\<^verbatim>\<open>csv.DictWriter.writerow\<close>: the values in header order, the empty string for a
  key the row does not have. (A key outside the header would be a \<^verbatim>\<open>ValueError\<close>; the
  rows written here have none, see \<open>extract_metrics_keys\<close>.)\<close>

definition dict_row :: "dict \<Rightarrow> pyval list" where
  "dict_row d = map (\<lambda>k. case map_of d k of None \<Rightarrow> PyStr [] | Some v \<Rightarrow> v) fieldnames"

definition out_row :: "manifest_row \<Rightarrow> nat \<Rightarrow> dict \<Rightarrow> dict" where
  "out_row row ch metrics =
     dict_update
       [(''tier'', PyStr (tier row)),
        (''config_id'', PyStr (config_id row)),
        (''sim_id'', PyStr (sim_id_of row)),
        (''trace_name'', PyStr (trace_name row)),
        (''simconfig'', PyStr (simconfig row)),
        (''channel'', PyInt (int ch))]
       metrics"

text \<open>
  The three nested loops of \<^verbatim>\<open>main\<close> in \<^verbatim>\<open>extractor.py\<close>. \<open>dbs\<close> stands for the directory
  \<^verbatim>\<open>dramsys_root\<close>: for a file name, what \<^verbatim>\<open>sqlite3.connect\<close> gives for the file of that
  name, or \<open>None\<close> when there is no such file. Nothing catches an exception of
  \<^verbatim>\<open>extract_metrics_from_db\<close>: it ends the loops.
\<close>

fun channel_loop ::
  "(string \<Rightarrow> (sqlite_error + cursor) option) \<Rightarrow> manifest_row \<Rightarrow> nat list \<Rightarrow> pyval list list
     \<Rightarrow> py_exn option \<times> pyval list list" where
  "channel_loop dbs row [] out = (None, out)"
| "channel_loop dbs row (ch # chs) out =
     (case dbs (db_name row ch) of
        None \<Rightarrow> channel_loop dbs row chs out
      | Some db \<Rightarrow>
          (case extract_metrics_from_db db of
             Inl x \<Rightarrow> (Some x, out)
           | Inr metrics \<Rightarrow>
               channel_loop dbs row chs (out @ [dict_row (out_row row ch metrics)])))"

fun row_loop ::
  "(string \<Rightarrow> (sqlite_error + cursor) option) \<Rightarrow> manifest_row list \<Rightarrow> pyval list list
     \<Rightarrow> py_exn option \<times> pyval list list" where
  "row_loop dbs [] out = (None, out)"
| "row_loop dbs (row # rows) out =
     (case channel_loop dbs row [0 ..< 4] out of
        (Some x, out') \<Rightarrow> (Some x, out')
      | (None, out') \<Rightarrow> row_loop dbs rows out')"

fun manifest_loop ::
  "(string \<Rightarrow> (sqlite_error + cursor) option) \<Rightarrow> manifest_row list list \<Rightarrow> pyval list list
     \<Rightarrow> py_exn option \<times> pyval list list" where
  "manifest_loop dbs [] out = (None, out)"
| "manifest_loop dbs (manifest # manifests) out =
     (case row_loop dbs manifest out of
        (Some x, out') \<Rightarrow> (Some x, out')
      | (None, out') \<Rightarrow> manifest_loop dbs manifests out')"

text \<open>\<^verbatim>\<open>main\<close> of \<^verbatim>\<open>extractor.py\<close>: \<open>manifest_files\<close> holds the rows of each manifest the
  glob found, \<open>old\<close> is \<^verbatim>\<open>metrics_summary.csv\<close> before the run (\<open>None\<close>: there is none).
  The result is the exception raised, if any, and the summary file after.\<close>

definition manifest_main ::
  "manifest_row list list \<Rightarrow> (string \<Rightarrow> (sqlite_error + cursor) option) \<Rightarrow> pyval list list option
     \<Rightarrow> py_exn option \<times> pyval list list option" where
  "manifest_main manifest_files dbs old =
     (if manifest_files = [] then (Some SystemExit, old)
      else (case manifest_loop dbs manifest_files [map PyStr fieldnames] of
              (x, out) \<Rightarrow> (x, Some out)))"

section \<open>SQLite databases\<close>

text \<open>
  What the \<^verbatim>\<open>sqlite3\<close> library answers for a database, for the statements above. A
  database is a list of named tables; a table has its columns in declared order and
  its rows, a row having one cell per column (a missing cell reads as NULL). Table and
  column names are plain identifiers and are compared as they are written; the
  declared type and constraints of a column, which no script reads, are left empty.
  \<^item> \<^verbatim>\<open>PRAGMA table_info\<close> of a table that does not exist has no rows and no error.
  \<^item> Any other statement on a table or column that does not exist is an
    \<^verbatim>\<open>OperationalError\<close> (no such table, no such column).
  \<^item> An aggregate without \<^verbatim>\<open>GROUP BY\<close> always has exactly one row.
  \<^item> \<^verbatim>\<open>AVG\<close> and \<^verbatim>\<open>MAX\<close> skip NULL and are NULL when nothing is left; \<^verbatim>\<open>AVG\<close> is a
    float; text that does not look like a number counts as zero in \<^verbatim>\<open>AVG\<close>
    (numeric-looking text is not modelled).
  \<^item> \<^verbatim>\<open>MAX\<close> orders numbers by value, text by its bytes, any number below any text,
    and keeps the first of equal values.
  \<^item> \<^verbatim>\<open>LIKE\<close> ignores the case of ASCII letters; \<^verbatim>\<open>IN\<close> compares exactly.
\<close>

record table =
  t_columns :: "string list"
  t_rows :: "pyval list list"

type_synonym database = "(string \<times> table) list"

definition cell :: "pyval list \<Rightarrow> nat \<Rightarrow> pyval" where
  "cell r i = (if i < length r then r ! i else PyNone)"

fun index_of :: "'a \<Rightarrow> 'a list \<Rightarrow> nat option" where
  "index_of x [] = None"
| "index_of x (y # ys) = (if x = y then Some 0 else map_option Suc (index_of x ys))"

definition column_cells :: "table \<Rightarrow> string \<Rightarrow> pyval list option" where
  "column_cells tab c =
     (case index_of c (t_columns tab) of
        None \<Rightarrow> None
      | Some i \<Rightarrow> Some (map (\<lambda>r. cell r i) (t_rows tab)))"

fun sql_num :: "pyval \<Rightarrow> rat" where
  "sql_num (PyInt i) = of_int i"
| "sql_num (PyFloat x) = x"
| "sql_num (PyStr s) = 0"
| "sql_num PyNone = 0"

definition sql_avg :: "pyval list \<Rightarrow> pyval" where
  "sql_avg vs =
     (let ns = filter (\<lambda>v. v \<noteq> PyNone) vs in
      if ns = [] then PyNone
      else PyFloat (sum_list (map sql_num ns) / of_nat (length ns)))"

fun str_less :: "string \<Rightarrow> string \<Rightarrow> bool" where
  "str_less [] [] = False"
| "str_less [] (d # ds) = True"
| "str_less (c # cs) [] = False"
| "str_less (c # cs) (d # ds) =
     ((of_char c :: nat) < of_char d \<or> (c = d \<and> str_less cs ds))"

fun sql_less :: "pyval \<Rightarrow> pyval \<Rightarrow> bool" where
  "sql_less PyNone v = (v \<noteq> PyNone)"
| "sql_less v PyNone = False"
| "sql_less (PyStr s) (PyStr t) = str_less s t"
| "sql_less (PyStr s) v = False"
| "sql_less v (PyStr t) = True"
| "sql_less v w = (sql_num v < sql_num w)"

definition sql_max :: "pyval list \<Rightarrow> pyval" where
  "sql_max vs = foldl (\<lambda>best v. if sql_less best v then v else best) PyNone vs"

definition ascii_upper :: "char \<Rightarrow> char" where
  "ascii_upper c =
     (if 97 \<le> (of_char c :: nat) \<and> (of_char c :: nat) \<le> 122
      then char_of (of_char c - 32 :: nat) else c)"

definition sql_like_prefix :: "string \<Rightarrow> pyval \<Rightarrow> bool" where
  "sql_like_prefix p v =
     (case v of
        PyStr s \<Rightarrow> map ascii_upper (take (length p) s) = map ascii_upper p
      | _ \<Rightarrow> False)"

definition sql_in :: "string list \<Rightarrow> pyval \<Rightarrow> bool" where
  "sql_in vs v = (case v of PyStr s \<Rightarrow> s \<in> set vs | _ \<Rightarrow> False)"

definition sqlite_table_info :: "database \<Rightarrow> string \<Rightarrow> sqlite_error + column_info list" where
  "sqlite_table_info db t =
     Inr (case map_of db t of
            None \<Rightarrow> []
          | Some tab \<Rightarrow>
              map (\<lambda>(i, n). \<lparr>ci_cid = i, ci_name = n, ci_type = [], ci_notnull = 0,
                               ci_dflt_value = PyNone, ci_pk = 0\<rparr>)
                (enumerate 0 (t_columns tab)))"

definition on_column ::
  "database \<Rightarrow> string \<Rightarrow> string \<Rightarrow> (pyval list \<Rightarrow> 'a) \<Rightarrow> sqlite_error + 'a" where
  "on_column db t c f =
     (case map_of db t of
        None \<Rightarrow> Inl OperationalError
      | Some tab \<Rightarrow>
          (case column_cells tab c of
             None \<Rightarrow> Inl OperationalError
           | Some cells \<Rightarrow> Inr (f cells)))"

definition sqlite_select_avg_max ::
  "database \<Rightarrow> string \<Rightarrow> string \<Rightarrow> sqlite_error + (pyval \<times> pyval) option" where
  "sqlite_select_avg_max db c t = on_column db t c (\<lambda>cells. Some (sql_avg cells, sql_max cells))"

fun sqlite_select_value :: "database \<Rightarrow> query \<Rightarrow> sqlite_error + pyval option" where
  "sqlite_select_value db (SelectAvg c t) = on_column db t c (\<lambda>cells. Some (sql_avg cells))"
| "sqlite_select_value db (SelectMax c t) = on_column db t c (\<lambda>cells. Some (sql_max cells))"
| "sqlite_select_value db (SelectCount t) =
     (case map_of db t of
        None \<Rightarrow> Inl OperationalError
      | Some tab \<Rightarrow> Inr (Some (PyInt (int (length (t_rows tab))))))"
| "sqlite_select_value db (SelectCountLike t c p) =
     on_column db t c (\<lambda>cells. Some (PyInt (int (length (filter (sql_like_prefix p) cells)))))"
| "sqlite_select_value db (SelectCountIn t c vs) =
     on_column db t c (\<lambda>cells. Some (PyInt (int (length (filter (sql_in vs) cells)))))"

definition sqlite_select_star :: "database \<Rightarrow> string \<Rightarrow> sqlite_error + pyval list option" where
  "sqlite_select_star db t =
     (case map_of db t of
        None \<Rightarrow> Inl OperationalError
      | Some tab \<Rightarrow>
          Inr (case t_rows tab of
                 [] \<Rightarrow> None
               | r # rs \<Rightarrow> Some (map (cell r) [0 ..< length (t_columns tab)])))"

definition sqlite_cursor :: "database \<Rightarrow> cursor" where
  "sqlite_cursor db =
     \<lparr>table_info = sqlite_table_info db,
      select_avg_max = sqlite_select_avg_max db,
      select_value = sqlite_select_value db,
      select_star = sqlite_select_star db\<rparr>"

section \<open>The reason tallier\<close>







text \<open>The distinct elements of a list in the order of their first occurrence.\<close>

fun first_seen :: "'a list \<Rightarrow> 'a list" where
  "first_seen [] = []"
| "first_seen (x # xs) = x # filter (\<lambda>y. y \<noteq> x) (first_seen xs)"

text \<open>A run of decimal digits, as the file name convention has after \<^verbatim>\<open>id\<close> and
  \<^verbatim>\<open>ch\<close>.\<close>

definition digits :: "string \<Rightarrow> bool" where
  "digits s = (s \<noteq> [] \<and> list_all is_digit s)"

section \<open>Auxiliary notions for the statements\<close>




text \<open>Example databases.\<close>

definition bandwidth_only :: database where
  "bandwidth_only =
     [(''Bandwidth'',
       \<lparr>t_columns = [''ID'', ''Time'', ''AverageBandwidth''],
        t_rows = [[PyInt 1, PyInt 10, PyFloat 2], [PyInt 2, PyInt 20, PyInt 5]]\<rparr>)]"

definition empty_power :: database where
  "empty_power = [(''Power'', \<lparr>t_columns = [''ID'', ''AveragePower''], t_rows = []\<rparr>)]"



text \<open>What a fetched one-column row stands for in the record: the value, or \<^verbatim>\<open>None\<close>
  when there is no row.\<close>

definition row_value :: "pyval option \<Rightarrow> pyval" where
  "row_value row = (case row of None \<Rightarrow> PyNone | Some v \<Rightarrow> v)"

text \<open>The four statements of the read/write split.\<close>

definition like_read :: query where
  "like_read = SelectCountLike ''Transactions'' ''Command'' ''READ''"

definition like_write :: query where
  "like_write = SelectCountLike ''Transactions'' ''Command'' ''WRITE''"

definition in_read :: query where
  "in_read = SelectCountIn ''Transactions'' ''Command'' [''R'', ''READ'']"

definition in_write :: query where
  "in_write = SelectCountIn ''Transactions'' ''Command'' [''W'', ''WRITE'']"

text \<open>The metric fields that come from one statement each, with that statement.\<close>

definition single_metrics :: "(string \<times> query) list" where
  "single_metrics =
     [(''avg_bw_Gbps'', SelectAvg ''AverageBandwidth'' ''Bandwidth''),
      (''max_bw_Gbps'', SelectMax ''AverageBandwidth'' ''Bandwidth''),
      (''sim_time_units'', SelectMax ''Time'' ''Bandwidth''),
      (''avg_power_W'', SelectAvg ''AveragePower'' ''Power''),
      (''max_power_W'', SelectMax ''AveragePower'' ''Power''),
      (''avg_buf_depth'', SelectAvg ''AverageBufferDepth'' ''BufferDepth''),
      (''max_buf_depth'', SelectMax ''AverageBufferDepth'' ''BufferDepth''),
      (''total_transactions'', SelectCount ''Transactions'')]"

text \<open>A connection on which the \<^verbatim>\<open>LIKE\<close> statements fail structurally and the \<^verbatim>\<open>IN\<close>
  statements answer.\<close>

definition like_unsupported :: cursor where
  "like_unsupported =
     \<lparr>table_info = (\<lambda>t. Inr []),
      select_avg_max = (\<lambda>c t. Inr (Some (PyNone, PyNone))),
      select_value =
        (\<lambda>q. case q of
               SelectCountLike t c p \<Rightarrow> Inl OperationalError
             | SelectCountIn t c vs \<Rightarrow> Inr (Some (PyInt (int (length vs))))
             | _ \<Rightarrow> Inr None),
      select_star = (\<lambda>t. Inr None)\<rparr>"

text \<open>A database with the five tables; \<^verbatim>\<open>Power\<close> has no rows.\<close>

definition full_db :: database where
  "full_db =
     [(''Bandwidth'',
       \<lparr>t_columns = [''Time'', ''AverageBandwidth''],
        t_rows = [[PyInt 10, PyFloat 2], [PyInt 20, PyFloat 4]]\<rparr>),
      (''Power'', \<lparr>t_columns = [''Time'', ''AveragePower''], t_rows = []\<rparr>),
      (''BufferDepth'',
       \<lparr>t_columns = [''Time'', ''AverageBufferDepth''], t_rows = [[PyInt 10, PyInt 3]]\<rparr>),
      (''Transactions'',
       \<lparr>t_columns = [''ID'', ''Command''],
        t_rows = [[PyInt 1, PyStr ''READ''], [PyInt 2, PyStr ''WRITE''], [PyInt 3, PyStr ''read'']]\<rparr>),
      (''GeneralInfo'',
       \<lparr>t_columns = [''clk'', ''UnitOfTime'', ''NumberOfRanks''],
        t_rows = [[PyInt 625, PyStr ''PS'', PyInt 1]]\<rparr>)]"

text \<open>A connection on which every statement succeeds and yields no row.\<close>

definition no_rows :: cursor where
  "no_rows =
     \<lparr>table_info = (\<lambda>t. Inr []),
      select_avg_max = (\<lambda>c t. Inr None),
      select_value = (\<lambda>q. Inr None),
      select_star = (\<lambda>t. Inr None)\<rparr>"




text \<open>Two manifest rows, and a directory where the only database of the first row
  lacks tables and the only database of the second row is complete.\<close>

definition example_row :: manifest_row where
  "example_row =
     \<lparr>tier = ''lpddr4'', config_id = ''4386'', trace_name = ''ai_cpu_trace_example.trace'',
      simconfig = ''ddr4.json''\<rparr>"



text \<open>A directory whose only file is the channel 0 database of \<open>example_row\<close>.\<close>

definition only_channel0 :: "database \<Rightarrow> string \<Rightarrow> (sqlite_error + cursor) option" where
  "only_channel0 db n =
     (if n = ''DRAMSys_lpddr4_id4386_ai_cpu_trace_example_ddr4_ch0.tdb''
      then Some (Inr (sqlite_cursor db)) else None)"

text \<open>The record \<^verbatim>\<open>extract_metrics_from_db\<close> returns for \<open>full_db\<close>.\<close>

definition full_db_metrics :: dict where
  "full_db_metrics =
     [(''avg_bw_Gbps'', PyFloat 3), (''max_bw_Gbps'', PyFloat 4),
      (''sim_time_units'', PyInt 20), (''avg_power_W'', PyNone),
      (''max_power_W'', PyNone), (''avg_buf_depth'', PyFloat 3),
      (''max_buf_depth'', PyInt 3), (''total_transactions'', PyInt 3),
      (''read_transactions'', PyInt 2), (''write_transactions'', PyInt 1),
      (''GI_clk'', PyInt 625), (''GI_UnitOfTime'', PyStr ''PS'')]"


text \<open>A file that opens and is not a database: every statement fails. Then four
  matched files: an empty one, one that lacks tables, one that cannot be opened, one
  that is not a database.\<close>

definition not_a_database :: cursor where
  "not_a_database =
     \<lparr>table_info = (\<lambda>t. Inl DatabaseError),
      select_avg_max = (\<lambda>c t. Inl DatabaseError),
      select_value = (\<lambda>q. Inl DatabaseError),
      select_star = (\<lambda>t. Inl DatabaseError)\<rparr>"


text \<open>A summary file left by an earlier run.\<close>

definition stale_summary :: "pyval list list" where
  "stale_summary = [[PyStr ''tier'', PyStr ''config_id''], [PyStr ''ddr3'', PyStr ''17'']]"

section \<open>Properties of the file name parser\<close>

lemma basename_append:
  assumes "CHR ''/'' \<notin> set base" and "dir = [] \<or> last dir = CHR ''/''"
  shows "basename (dir @ base) = base"
proof (cases "dir = []")
  case True
  have "takeWhile (\<lambda>c. c \<noteq> CHR ''/'') (rev base) = rev base"
    using assms(1) by (intro takeWhile_eq_all_conv[THEN iffD2]) auto
  then show ?thesis using True by (simp add: basename_def del: takeWhile_eq_all_conv)
next
  case False
  then have "last dir = CHR ''/''" using assms(2) by simp
  then have "dir = butlast dir @ [CHR ''/'']"
    using False by (metis append_butlast_last_id)
  then obtain d where "rev dir = CHR ''/'' # d"
    by (metis rev.simps(2) rev_append rev_rev_ident append_Cons append_Nil)
  moreover have "takeWhile (\<lambda>c. c \<noteq> CHR ''/'') (rev base @ CHR ''/'' # d)
      = rev base @ takeWhile (\<lambda>c. c \<noteq> CHR ''/'') (CHR ''/'' # d)"
    by (rule takeWhile_append2) (use assms(1) in auto)
  ultimately show ?thesis
    by (simp add: basename_def)
qed

lemma is_digit_not_space: "is_digit c \<Longrightarrow> \<not> py_isspace c"
  by (auto simp: is_digit_def py_isspace_def)

lemma is_digit_not_special:
  "is_digit c \<Longrightarrow> c \<noteq> CHR ''-'' \<and> c \<noteq> CHR ''+'' \<and> c \<noteq> CHR ''_''"
  by (auto simp: is_digit_def)

lemma int_body_ok_digits: "s \<noteq> [] \<Longrightarrow> list_all is_digit s \<Longrightarrow> int_body_ok s"
  by (induction s rule: int_body_ok.induct) (auto dest: is_digit_not_special)

lemma filter_digits: "list_all is_digit s \<Longrightarrow> filter (\<lambda>c. c \<noteq> CHR ''_'') s = s"
  by (induction s) (auto dest: is_digit_not_special)

lemma py_strip_digits:
  assumes "digits s"
  shows "py_strip s = s"
proof -
  from assms obtain c r where s: "s = c # r" and c: "is_digit c"
    by (cases s) (auto simp: digits_def)
  have 1: "dropWhile py_isspace s = s"
    using s c by (simp add: is_digit_not_space)
  from assms have "rev s \<noteq> []" "is_digit (hd (rev s))"
    by (auto simp: digits_def hd_rev list_all_iff)
  then have 2: "dropWhile py_isspace (rev s) = rev s"
    by (cases "rev s") (auto simp: is_digit_not_space)
  show ?thesis by (simp add: py_strip_def 1 2)
qed

lemma py_int_digits: "digits s \<Longrightarrow> py_int s = Some (int (decimal_value s))"
  unfolding py_int_def
  by (cases s)
     (auto simp: py_strip_digits int_body_def digits_def int_body_ok_digits filter_digits
       dest: is_digit_not_special simp del: int_body_ok.simps split: list.splits)

lemma find_config_id_find:
  "find_config_id parts =
     (case find (\<lambda>p. startswith p ''id'') parts of
        None \<Rightarrow> None
      | Some p \<Rightarrow> py_int (drop 2 p))"
  by (induction parts) auto

lemma core_slice:
  "drop (length ''DRAMSys_'') (take (length (''DRAMSys_'' @ core @ ''.tdb'') - length ''.tdb'')
     (''DRAMSys_'' @ core @ ''.tdb'')) = core"
  by simp

text \<open>
  Claim C5, as amended. Take a file name \<^verbatim>\<open>DRAMSys_<core>.tdb\<close>, under any directory,
  whose core splits at underscores into at least three parts, the last of them \<^verbatim>\<open>ch\<close>
  followed by decimal digits. If the first part that starts with \<^verbatim>\<open>id\<close> (the two tier
  parts included) is \<^verbatim>\<open>id\<close> followed by decimal digits, then \<^verbatim>\<open>parse_filename\<close> returns
  the tier (the first two parts joined by an underscore), the number of that part as
  the configuration id, the core as the simulation id, and the number after \<^verbatim>\<open>ch\<close> as
  the channel: none of the four is null.
\<close>

theorem parse_filename_well_formed:
  assumes "CHR ''/'' \<notin> set base" and "dir = [] \<or> last dir = CHR ''/''"
    and "base = ''DRAMSys_'' @ core @ ''.tdb''"
    and "py_split (CHR ''_'') core = t0 # t1 # rest" and "rest \<noteq> []"
    and "find (\<lambda>p. startswith p ''id'') (t0 # t1 # rest) = Some (''id'' @ ds)" and "digits ds"
    and "last rest = ''ch'' @ cs" and "digits cs"
  shows "parse_filename (dir @ base) =
    (Some (t0 @ ''_'' @ t1), Some (int (decimal_value ds)), Some core,
     Some (int (decimal_value cs)))"
proof -
  have b: "basename (dir @ base) = base"
    using assms(1,2) by (rule basename_append)
  have s: "startswith base ''DRAMSys_''" and e: "endswith base ''.tdb''"
    using assms(3) by (simp_all add: startswith_def endswith_def)
  have c: "drop (length ''DRAMSys_'') (take (length base - length ''.tdb'') base) = core"
    unfolding assms(3) by (rule core_slice)
  have len: "\<not> length (t0 # t1 # rest) < 3"
    using assms(5) by (cases rest) auto
  have cfg: "find_config_id (t0 # t1 # rest) = Some (int (decimal_value ds))"
    unfolding find_config_id_find assms(6) using py_int_digits[OF assms(7)] by simp
  have lst: "last (t0 # t1 # rest) = ''ch'' @ cs"
    using assms(5,8) by simp
  have ch: "py_int (drop 2 (''ch'' @ cs)) = Some (int (decimal_value cs))"
    using py_int_digits[OF assms(9)] by simp
  have st: "startswith (''ch'' @ cs) ''ch''"
    by (simp add: startswith_def)
  show ?thesis
    unfolding parse_filename_def b Let_def c assms(4) lst
    using s e len cfg ch st by simp
qed

theorem parse_filename_well_formed_witness:
  "parse_filename ''/home/arifh/DRAMSys/DRAMSys_tier_lpddr4_id4386_ai_cpu_trace_example_ch0.tdb'' =
     (Some ''tier_lpddr4'', Some 4386, Some ''tier_lpddr4_id4386_ai_cpu_trace_example_ch0'',
      Some 0)"
proof -
  have h1: "CHR ''/'' \<notin> set ''DRAMSys_tier_lpddr4_id4386_ai_cpu_trace_example_ch0.tdb''"
    by simp
  have h2: "''/home/arifh/DRAMSys/'' = [] \<or> last ''/home/arifh/DRAMSys/'' = CHR ''/''"
    by simp
  have h3: "''DRAMSys_tier_lpddr4_id4386_ai_cpu_trace_example_ch0.tdb'' =
      ''DRAMSys_'' @ ''tier_lpddr4_id4386_ai_cpu_trace_example_ch0'' @ ''.tdb''"
    by simp
  have h4: "py_split (CHR ''_'') ''tier_lpddr4_id4386_ai_cpu_trace_example_ch0'' =
      ''tier'' # ''lpddr4'' # [''id4386'', ''ai'', ''cpu'', ''trace'', ''example'', ''ch0'']"
    by simp
  have h5: "[''id4386'', ''ai'', ''cpu'', ''trace'', ''example'', ''ch0''] \<noteq> []"
    by simp
  have h6: "find (\<lambda>p. startswith p ''id'')
      (''tier'' # ''lpddr4'' # [''id4386'', ''ai'', ''cpu'', ''trace'', ''example'', ''ch0''])
      = Some (''id'' @ ''4386'')"
    by (simp add: startswith_def)
  have h7: "digits ''4386''" and h9: "digits ''0''"
    by (simp_all add: digits_def is_digit_def)
  have h8: "last [''id4386'', ''ai'', ''cpu'', ''trace'', ''example'', ''ch0''] = ''ch'' @ ''0''"
    by simp
  have v: "decimal_value ''4386'' = 4386" "decimal_value ''0'' = 0"
    by (simp_all add: decimal_value_def digit_val_def)
  show ?thesis
    using parse_filename_well_formed [OF h1 h2 h3 h4 h5 h6 h7 h8 h9] by (simp add: v)
qed

text \<open>
  The claim as it was stated fails: this name has the prefix, the extension, two tier
  parts, the part \<^verbatim>\<open>id4386\<close> and the trailing \<^verbatim>\<open>ch0\<close>, and the configuration id comes
  back null, because the tier value \<^verbatim>\<open>ideal\<close> is the first part that starts with
  \<^verbatim>\<open>id\<close>.
\<close>

theorem parse_filename_first_id_counterexample:
  "py_split (CHR ''_'') ''tier_ideal_id4386_trace_ch0''
     = [''tier'', ''ideal'', ''id'' @ ''4386'', ''trace'', ''ch'' @ ''0'']
   \<and> digits ''4386'' \<and> digits ''0''
   \<and> parse_filename ''DRAMSys_tier_ideal_id4386_trace_ch0.tdb''
     = (Some ''tier_ideal'', None, Some ''tier_ideal_id4386_trace_ch0'', Some 0)"
  by (simp add: parse_filename_def basename_def startswith_def endswith_def py_int_def
      py_strip_def py_isspace_def int_body_def is_digit_def decimal_value_def digit_val_def
      digits_def)

section \<open>Properties of the generic aggregate reader\<close>



lemma get_numeric_agg_no_columns:
  "table_info conn t = Inr [] \<Longrightarrow> get_numeric_agg conn t = Inr (PyNone, PyNone)"
  by (simp add: get_numeric_agg_def get_numeric_agg_try_def)

lemma table_info_sqlite [simp]:
  "table_info (sqlite_cursor db) = sqlite_table_info db"
  "select_avg_max (sqlite_cursor db) = sqlite_select_avg_max db"
  "select_value (sqlite_cursor db) = sqlite_select_value db"
  "select_star (sqlite_cursor db) = sqlite_select_star db"
  by (simp_all add: sqlite_cursor_def)

lemma index_of_member: "x \<in> set xs \<Longrightarrow> \<exists>i. index_of x xs = Some i"
  by (induction xs) auto


lemma get_numeric_agg_sqlite_present:
  assumes "map_of db t = Some tab" and "t_columns tab \<noteq> []"
    and "column_cells tab (last (t_columns tab)) = Some cells"
  shows "get_numeric_agg (sqlite_cursor db) t = Inr (sql_avg cells, sql_max cells)"
proof -
  have "map ci_name (case map_of db t of None \<Rightarrow> [] | Some tab \<Rightarrow>
              map (\<lambda>(i, n). \<lparr>ci_cid = i, ci_name = n, ci_type = [], ci_notnull = 0,
                               ci_dflt_value = PyNone, ci_pk = 0\<rparr>)
                (enumerate 0 (t_columns tab))) = t_columns tab"
    using assms(1) by (simp add: comp_def case_prod_unfold)
  then show ?thesis
    using assms
    by (simp add: get_numeric_agg_def get_numeric_agg_try_def sqlite_table_info_def
        py_last_def sqlite_select_avg_max_def on_column_def Let_def)
qed







text \<open>
  Claim C10. For a table that exists, has at least one declared column and has no
  rows, the aggregate statement yields the row \<^verbatim>\<open>(NULL, NULL)\<close> and \<^verbatim>\<open>get_numeric_agg\<close>
  returns \<^verbatim>\<open>(None, None)\<close>, the same as for the database without that table.
\<close>

theorem get_numeric_agg_empty_table:
  assumes "map_of db t = Some tab" and "t_columns tab \<noteq> []" and "t_rows tab = []"
  shows "select_avg_max (sqlite_cursor db) (last (t_columns tab)) t = Inr (Some (PyNone, PyNone))
    \<and> get_numeric_agg (sqlite_cursor db) t = Inr (PyNone, PyNone)
    \<and> get_numeric_agg (sqlite_cursor db) t
        = get_numeric_agg (sqlite_cursor (filter (\<lambda>kv. fst kv \<noteq> t) db)) t"
proof -
  obtain i where "index_of (last (t_columns tab)) (t_columns tab) = Some i"
    using index_of_member[of "last (t_columns tab)" "t_columns tab"] assms(2) by auto
  then have c: "column_cells tab (last (t_columns tab)) = Some []"
    using assms(3) by (simp add: column_cells_def)
  have e: "sql_avg [] = PyNone" "sql_max [] = PyNone"
    by (simp_all add: sql_avg_def sql_max_def)
  have 1: "select_avg_max (sqlite_cursor db) (last (t_columns tab)) t = Inr (Some (PyNone, PyNone))"
    using assms(1) c e by (simp add: sqlite_select_avg_max_def on_column_def)
  have 2: "get_numeric_agg (sqlite_cursor db) t = Inr (PyNone, PyNone)"
    using get_numeric_agg_sqlite_present[OF assms(1,2) c] e by simp
  have "map_of (filter (\<lambda>kv. fst kv \<noteq> t) db) t = None"
    by (auto simp: map_of_eq_None_iff)
  then have "table_info (sqlite_cursor (filter (\<lambda>kv. fst kv \<noteq> t) db)) t = Inr []"
    by (simp add: sqlite_table_info_def)
  then have 3: "get_numeric_agg (sqlite_cursor (filter (\<lambda>kv. fst kv \<noteq> t) db)) t
      = Inr (PyNone, PyNone)"
    by (rule get_numeric_agg_no_columns)
  show ?thesis using 1 2 3 by simp
qed

theorem get_numeric_agg_empty_table_witness:
  "get_numeric_agg (sqlite_cursor empty_power) ''Power'' = Inr (PyNone, PyNone)
   \<and> get_numeric_agg (sqlite_cursor empty_power) ''Power''
       = get_numeric_agg (sqlite_cursor []) ''Power''"
proof -
  have h1: "map_of empty_power ''Power''
      = Some \<lparr>t_columns = [''ID'', ''AveragePower''], t_rows = []\<rparr>"
    by (simp add: empty_power_def)
  have h2: "t_columns \<lparr>t_columns = [''ID'', ''AveragePower''], t_rows = []\<rparr> \<noteq> []"
    and h3: "t_rows \<lparr>t_columns = [''ID'', ''AveragePower''], t_rows = []\<rparr> = []"
    by simp_all
  have f: "filter (\<lambda>kv. fst kv \<noteq> ''Power'') empty_power = []"
    by (simp add: empty_power_def)
  show ?thesis
    using get_numeric_agg_empty_table [OF h1 h2 h3] unfolding f by blast
qed



section \<open>Properties of the reason tallier\<close>


lemma first_seen_set [simp]: "set (first_seen xs) = set xs"
  by (induction xs) auto

lemma first_seen_distinct [simp]: "distinct (first_seen xs)"
  by (induction xs) auto














section \<open>Properties of the named-metric reader\<close>

lemma safe_single_value_row:
  "select_value cur q = Inr row \<Longrightarrow> safe_single_value cur q = Inr (row_value row)"
  by (auto simp: safe_single_value_def row_value_def split: option.splits)

lemma like_counts_ok:
  "safe_single_value cur like_read = Inr r \<Longrightarrow> safe_single_value cur like_write = Inr w \<Longrightarrow>
   read_write_counts cur = Inr (r, w)"
  by (simp add: read_write_counts_def like_counts_def then_do_def like_read_def like_write_def)

lemma like_counts_fallback:
  "safe_single_value cur like_read = Inl (SqliteError OperationalError)
   \<or> (\<exists>r. safe_single_value cur like_read = Inr r)
      \<and> safe_single_value cur like_write = Inl (SqliteError OperationalError) \<Longrightarrow>
   read_write_counts cur = in_counts cur"
  by (auto simp: read_write_counts_def like_counts_def then_do_def like_read_def like_write_def)

lemma like_counts_other_error:
  "safe_single_value cur like_read = Inl x \<Longrightarrow> x \<noteq> SqliteError OperationalError \<Longrightarrow>
   read_write_counts cur = Inl x"
  by (cases x; cases "case x of SqliteError e \<Rightarrow> e | _ \<Rightarrow> DatabaseError")
     (auto simp: read_write_counts_def like_counts_def then_do_def like_read_def like_write_def
       split: py_exn.splits sqlite_error.splits)

lemma in_counts_ok:
  "safe_single_value cur in_read = Inr r \<Longrightarrow> safe_single_value cur in_write = Inr w \<Longrightarrow>
   in_counts cur = Inr (r, w)"
  by (simp add: in_counts_def then_do_def in_read_def in_write_def)

lemma map_of_dict_set:
  "map_of (dict_set d k v) k' = (if k' = k then Some v else map_of d k')"
  by (induction d k v rule: dict_set.induct) auto

lemma keys_dict_set: "fst ` set (dict_set d k v) = insert k (fst ` set d)"
  by (induction d k v rule: dict_set.induct) auto

lemma map_of_gi_foldl:
  "k \<notin> (\<lambda>key. ''GI_'' @ key) ` set ks \<Longrightarrow>
   map_of (foldl (\<lambda>m key. case map_of gi key of None \<Rightarrow> m
                            | Some v \<Rightarrow> dict_set m (''GI_'' @ key) v) m ks) k = map_of m k"
  by (induction ks arbitrary: m) (auto simp: map_of_dict_set split: option.splits)

lemma keys_gi_foldl:
  "fst ` set (foldl (\<lambda>m key. case map_of gi key of None \<Rightarrow> m
                            | Some v \<Rightarrow> dict_set m (''GI_'' @ key) v) m ks)
     \<subseteq> fst ` set m \<union> (\<lambda>key. ''GI_'' @ key) ` set ks"
proof (induction ks arbitrary: m)
  case Nil
  then show ?case by simp
next
  case (Cons key ks)
  show ?case
    using Cons.IH[of "case map_of gi key of None \<Rightarrow> m | Some v \<Rightarrow> dict_set m (''GI_'' @ key) v"]
    by (auto simp: keys_dict_set split: option.splits)
qed

lemma map_of_add_general_info:
  "take 3 k \<noteq> ''GI_'' \<Longrightarrow> map_of (add_general_info gi m) k = map_of m k"
  unfolding add_general_info_def by (rule map_of_gi_foldl) auto

lemma then_do_Inr: "then_do m f = Inr y \<Longrightarrow> \<exists>v. m = Inr v \<and> f v = Inr y"
  by (cases m) (auto simp: then_do_def)

lemma then_do_Inr_eq [simp]: "then_do (Inr v) f = f v"
  by (simp add: then_do_def)

lemma then_do_Inl_eq [simp]: "then_do (Inl x) f = Inl x"
  by (simp add: then_do_def)

lemma extract_metrics_result:
  assumes "safe_single_value cur (SelectAvg ''AverageBandwidth'' ''Bandwidth'') = Inr v1"
    and "safe_single_value cur (SelectMax ''AverageBandwidth'' ''Bandwidth'') = Inr v2"
    and "safe_single_value cur (SelectMax ''Time'' ''Bandwidth'') = Inr v3"
    and "safe_single_value cur (SelectAvg ''AveragePower'' ''Power'') = Inr v4"
    and "safe_single_value cur (SelectMax ''AveragePower'' ''Power'') = Inr v5"
    and "safe_single_value cur (SelectAvg ''AverageBufferDepth'' ''BufferDepth'') = Inr v6"
    and "safe_single_value cur (SelectMax ''AverageBufferDepth'' ''BufferDepth'') = Inr v7"
    and "safe_single_value cur (SelectCount ''Transactions'') = Inr v8"
    and "read_write_counts cur = Inr rw"
    and "general_info cur = Inr gi"
  shows "extract_metrics_from_db (Inr cur) =
     Inr (add_general_info gi
         [(''avg_bw_Gbps'', v1), (''max_bw_Gbps'', v2), (''sim_time_units'', v3),
          (''avg_power_W'', v4), (''max_power_W'', v5), (''avg_buf_depth'', v6),
          (''max_buf_depth'', v7), (''total_transactions'', v8),
          (''read_transactions'', fst rw), (''write_transactions'', snd rw)])"
  unfolding extract_metrics_from_db_def using assms by simp

lemma extract_metrics_parts:
  assumes "extract_metrics_from_db (Inr cur) = Inr m"
  shows "\<exists>v1 v2 v3 v4 v5 v6 v7 v8 rw gi.
      safe_single_value cur (SelectAvg ''AverageBandwidth'' ''Bandwidth'') = Inr v1
    \<and> safe_single_value cur (SelectMax ''AverageBandwidth'' ''Bandwidth'') = Inr v2
    \<and> safe_single_value cur (SelectMax ''Time'' ''Bandwidth'') = Inr v3
    \<and> safe_single_value cur (SelectAvg ''AveragePower'' ''Power'') = Inr v4
    \<and> safe_single_value cur (SelectMax ''AveragePower'' ''Power'') = Inr v5
    \<and> safe_single_value cur (SelectAvg ''AverageBufferDepth'' ''BufferDepth'') = Inr v6
    \<and> safe_single_value cur (SelectMax ''AverageBufferDepth'' ''BufferDepth'') = Inr v7
    \<and> safe_single_value cur (SelectCount ''Transactions'') = Inr v8
    \<and> read_write_counts cur = Inr rw
    \<and> general_info cur = Inr gi"
proof -
  note d = then_do_Inr
  from assms[unfolded extract_metrics_from_db_def] 
  obtain v1 where 1: "safe_single_value cur (SelectAvg ''AverageBandwidth'' ''Bandwidth'') = Inr v1"
    by (auto dest!: d)
  from assms[unfolded extract_metrics_from_db_def] 1
  obtain v2 where 2: "safe_single_value cur (SelectMax ''AverageBandwidth'' ''Bandwidth'') = Inr v2"
    by (auto dest!: d)
  from assms[unfolded extract_metrics_from_db_def] 1 2
  obtain v3 where 3: "safe_single_value cur (SelectMax ''Time'' ''Bandwidth'') = Inr v3"
    by (auto dest!: d)
  from assms[unfolded extract_metrics_from_db_def] 1 2 3
  obtain v4 where 4: "safe_single_value cur (SelectAvg ''AveragePower'' ''Power'') = Inr v4"
    by (auto dest!: d)
  from assms[unfolded extract_metrics_from_db_def] 1 2 3 4
  obtain v5 where 5: "safe_single_value cur (SelectMax ''AveragePower'' ''Power'') = Inr v5"
    by (auto dest!: d)
  from assms[unfolded extract_metrics_from_db_def] 1 2 3 4 5
  obtain v6 where 6: "safe_single_value cur (SelectAvg ''AverageBufferDepth'' ''BufferDepth'') = Inr v6"
    by (auto dest!: d)
  from assms[unfolded extract_metrics_from_db_def] 1 2 3 4 5 6
  obtain v7 where 7: "safe_single_value cur (SelectMax ''AverageBufferDepth'' ''BufferDepth'') = Inr v7"
    by (auto dest!: d)
  from assms[unfolded extract_metrics_from_db_def] 1 2 3 4 5 6 7
  obtain v8 where 8: "safe_single_value cur (SelectCount ''Transactions'') = Inr v8"
    by (auto dest!: d)
  from assms[unfolded extract_metrics_from_db_def] 1 2 3 4 5 6 7 8
  obtain rw where 9: "read_write_counts cur = Inr rw"
    by (auto dest!: d)
  from assms[unfolded extract_metrics_from_db_def] 1 2 3 4 5 6 7 8 9
  obtain gi where 10: "general_info cur = Inr gi"
    by (auto dest!: d)
  show ?thesis using 1 2 3 4 5 6 7 8 9 10 by blast
qed

lemma extract_metrics_answers:
  assumes "\<forall>q. select_value cur q = Inr (rows q)" and "general_info cur = Inr gi"
  shows "\<exists>m. extract_metrics_from_db (Inr cur) = Inr m
     \<and> (\<forall>kq\<in>set single_metrics. map_of m (fst kq) = Some (row_value (rows (snd kq))))
     \<and> map_of m ''read_transactions'' = Some (row_value (rows like_read))
     \<and> map_of m ''write_transactions'' = Some (row_value (rows like_write))"
proof -
  have v: "safe_single_value cur q = Inr (row_value (rows q))" for q
    using assms(1) by (simp add: safe_single_value_row)
  have rw: "read_write_counts cur = Inr (row_value (rows like_read), row_value (rows like_write))"
    by (rule like_counts_ok) (rule v)+
  note e = extract_metrics_result[OF v v v v v v v v rw assms(2)]
  show ?thesis
    unfolding e by (simp add: map_of_add_general_info single_metrics_def)
qed

text \<open>
  Claim C8. When both prefix-match statements return, their values are the read and
  write counts, whatever the exact-match statements would give. When the first
  prefix-match statement raises \<^verbatim>\<open>OperationalError\<close>, or the first returns and the
  second raises it, the result is that of the exact-match statements over
  \<^verbatim>\<open>('R','READ')\<close> and \<^verbatim>\<open>('W','WRITE')\<close>. A statement that yields no row or a null
  value gives \<^verbatim>\<open>None\<close> and no exception; when every statement returns, the record is
  returned with each field holding its statement's value, \<^verbatim>\<open>None\<close> where there was no
  row or a null. An exception of the first prefix-match statement other than
  \<^verbatim>\<open>OperationalError\<close> goes on to the caller: the exact-match statements are not used.
\<close>

theorem read_write_split:
  "(safe_single_value cur like_read = Inr r \<longrightarrow> safe_single_value cur like_write = Inr w \<longrightarrow>
      read_write_counts cur = Inr (r, w))
   \<and> (safe_single_value cur like_read = Inl (SqliteError OperationalError)
        \<or> (\<exists>r'. safe_single_value cur like_read = Inr r')
           \<and> safe_single_value cur like_write = Inl (SqliteError OperationalError) \<longrightarrow>
      read_write_counts cur = in_counts cur)
   \<and> (safe_single_value cur in_read = Inr r \<longrightarrow> safe_single_value cur in_write = Inr w \<longrightarrow>
      in_counts cur = Inr (r, w))
   \<and> (select_value cur q = Inr None \<or> select_value cur q = Inr (Some PyNone) \<longrightarrow>
      safe_single_value cur q = Inr PyNone)
   \<and> (select_value cur q = Inr (Some v) \<longrightarrow> safe_single_value cur q = Inr v)
   \<and> ((\<forall>q. select_value cur q = Inr (rows q)) \<longrightarrow> general_info cur = Inr gi \<longrightarrow>
        (\<exists>m. extract_metrics_from_db (Inr cur) = Inr m
           \<and> (\<forall>kq\<in>set single_metrics. map_of m (fst kq) = Some (row_value (rows (snd kq))))
           \<and> map_of m ''read_transactions'' = Some (row_value (rows like_read))
           \<and> map_of m ''write_transactions'' = Some (row_value (rows like_write))))
   \<and> (safe_single_value cur like_read = Inl x \<longrightarrow> x \<noteq> SqliteError OperationalError \<longrightarrow>
        read_write_counts cur = Inl x)"
  using like_counts_ok[of cur r w] like_counts_fallback[of cur] in_counts_ok[of cur r w]
    safe_single_value_row[of cur q] extract_metrics_answers[of cur rows gi]
    like_counts_other_error[of cur x]
  by (auto simp: row_value_def)

theorem read_write_split_witness:
  "read_write_counts like_unsupported = Inr (PyInt 2, PyInt 2)
   \<and> read_write_counts (sqlite_cursor full_db) = Inr (PyInt 2, PyInt 1)
   \<and> safe_single_value no_rows (SelectCount ''Transactions'') = Inr PyNone
   \<and> (\<exists>m. extract_metrics_from_db (Inr no_rows) = Inr m
         \<and> map_of m ''read_transactions'' = Some PyNone)
   \<and> read_write_counts not_a_database = Inl (SqliteError DatabaseError)"
proof -
  have u1: "safe_single_value like_unsupported like_read = Inl (SqliteError OperationalError)"
    by (simp add: safe_single_value_def like_unsupported_def like_read_def)
  have u2: "safe_single_value like_unsupported in_read = Inr (PyInt 2)"
    and u3: "safe_single_value like_unsupported in_write = Inr (PyInt 2)"
    by (simp_all add: safe_single_value_def like_unsupported_def in_read_def in_write_def)
  have a: "read_write_counts like_unsupported = Inr (PyInt 2, PyInt 2)"
    using read_write_split [of like_unsupported "PyInt 2" "PyInt 2"] u1 u2 u3 by simp
  have f1: "safe_single_value (sqlite_cursor full_db) like_read = Inr (PyInt 2)"
    and f2: "safe_single_value (sqlite_cursor full_db) like_write = Inr (PyInt 1)"
    by code_simp+
  have b: "read_write_counts (sqlite_cursor full_db) = Inr (PyInt 2, PyInt 1)"
    using read_write_split [of "sqlite_cursor full_db" "PyInt 2" "PyInt 1"] f1 f2 by simp
  have n1: "select_value no_rows q = Inr ((\<lambda>q. None) q)" for q
    by (simp add: no_rows_def)
  have n2: "general_info no_rows = Inr []"
    by (simp add: general_info_def no_rows_def)
  have c: "safe_single_value no_rows (SelectCount ''Transactions'') = Inr PyNone"
    using read_write_split [of no_rows PyNone PyNone "SelectCount ''Transactions''" PyNone
        "\<lambda>q. None" "[]" IndexError] n1 by simp
  have d: "\<exists>m. extract_metrics_from_db (Inr no_rows) = Inr m
         \<and> map_of m ''read_transactions'' = Some PyNone"
    using read_write_split [of no_rows PyNone PyNone "SelectCount ''Transactions''" PyNone
        "\<lambda>q. None" "[]" IndexError] n1 n2
    by (auto simp: row_value_def)
  have g1: "safe_single_value not_a_database like_read = Inl (SqliteError DatabaseError)"
    by (simp add: safe_single_value_def not_a_database_def)
  have e: "read_write_counts not_a_database = Inl (SqliteError DatabaseError)"
    using read_write_split [of not_a_database PyNone PyNone "SelectCount ''Transactions''" PyNone
        "\<lambda>q. None" "[]" "SqliteError DatabaseError"] g1 by simp
  show ?thesis using a b c d e by simp
qed

section \<open>The named-metric reader on SQLite databases\<close>































section \<open>Properties of the manifest-based extractor\<close>

lemma extract_metrics_connected:
  "extract_metrics_from_db d = Inr m \<Longrightarrow> \<exists>cur. d = Inr cur"
  by (cases d) (auto simp: extract_metrics_from_db_def)

lemma extract_metrics_keys:
  assumes "extract_metrics_from_db d = Inr m"
  shows "fst ` set m \<subseteq> set (drop 6 fieldnames)"
proof -
  from assms obtain cur where d: "d = Inr cur"
    using extract_metrics_connected by blast
  from extract_metrics_parts[OF assms[unfolded d]] obtain v1 v2 v3 v4 v5 v6 v7 v8 rw gi where
    p: "safe_single_value cur (SelectAvg ''AverageBandwidth'' ''Bandwidth'') = Inr v1"
      "safe_single_value cur (SelectMax ''AverageBandwidth'' ''Bandwidth'') = Inr v2"
      "safe_single_value cur (SelectMax ''Time'' ''Bandwidth'') = Inr v3"
      "safe_single_value cur (SelectAvg ''AveragePower'' ''Power'') = Inr v4"
      "safe_single_value cur (SelectMax ''AveragePower'' ''Power'') = Inr v5"
      "safe_single_value cur (SelectAvg ''AverageBufferDepth'' ''BufferDepth'') = Inr v6"
      "safe_single_value cur (SelectMax ''AverageBufferDepth'' ''BufferDepth'') = Inr v7"
      "safe_single_value cur (SelectCount ''Transactions'') = Inr v8"
      "read_write_counts cur = Inr rw"
      "general_info cur = Inr gi"
    by blast
  have m: "m = add_general_info gi
         [(''avg_bw_Gbps'', v1), (''max_bw_Gbps'', v2), (''sim_time_units'', v3),
          (''avg_power_W'', v4), (''max_power_W'', v5), (''avg_buf_depth'', v6),
          (''max_buf_depth'', v7), (''total_transactions'', v8),
          (''read_transactions'', fst rw), (''write_transactions'', snd rw)]"
    using extract_metrics_result[OF p] assms d by simp
  show ?thesis
    unfolding m add_general_info_def
    by (rule subset_trans[OF keys_gi_foldl]) (simp add: fieldnames_def)
qed

lemma map_of_dict_update:
  "k \<notin> fst ` set other \<Longrightarrow> map_of (dict_update d other) k = map_of d k"
  unfolding dict_update_def
  by (induction other arbitrary: d) (auto simp: map_of_dict_set)

lemma channel_of_row:
  assumes "extract_metrics_from_db d = Inr metrics"
  shows "dict_row (out_row row ch metrics) ! 5 = PyInt (int ch)"
proof -
  have "''channel'' \<notin> set (drop 6 fieldnames)"
    by (simp add: fieldnames_def)
  then have "''channel'' \<notin> fst ` set metrics"
    using extract_metrics_keys[OF assms] by blast
  then have "map_of (out_row row ch metrics) ''channel'' = Some (PyInt (int ch))"
    by (simp add: out_row_def map_of_dict_update)
  then show ?thesis
    by (simp add: dict_row_def fieldnames_def)
qed

lemma channels_0_3: "[0 ..< 4] = [0, 1, 2, 3 :: nat]"
  by (simp add: upt_rec)

lemma only_channel0_row:
  assumes "dbs (db_name row 0) = Some d" and "\<forall>ch\<in>{1, 2, 3}. dbs (db_name row ch) = None"
    and "extract_metrics_from_db d = Inr metrics"
  shows "manifest_main [[row]] dbs old
     = (None, Some [map PyStr fieldnames, dict_row (out_row row 0 metrics)])"
  using assms by (simp add: manifest_main_def channels_0_3)

text \<open>
  Claim C6, as amended. For every manifest row the file name looked for is
  \<^verbatim>\<open>DRAMSys_<tier>_id<config_id>_<trace-stem>_<simconfig-stem>_ch<N>.tdb\<close>, for the
  channels 0, 1, 2, 3 in this order; a channel whose file does not exist is passed over
  with nothing written. For a row where only the database of channel 0 exists and
  \<^verbatim>\<open>extract_metrics_from_db\<close> returns for it, the output is the header and exactly one
  row, whose \<^verbatim>\<open>channel\<close> field is 0.
\<close>

theorem manifest_channels:
  "db_name row ch =
     ''DRAMSys_'' @ tier row @ ''_id'' @ config_id row @ ''_'' @ path_stem (trace_name row)
       @ ''_'' @ path_stem (simconfig row) @ ''_ch'' @ str_of_nat ch @ ''.tdb''
   \<and> row_loop dbs [row] out = channel_loop dbs row [0, 1, 2, 3] out
   \<and> (dbs (db_name row ch) = None \<longrightarrow>
        channel_loop dbs row (ch # chs) out = channel_loop dbs row chs out)
   \<and> (dbs (db_name row 0) = Some d \<longrightarrow> (\<forall>ch\<in>{1, 2, 3}. dbs (db_name row ch) = None) \<longrightarrow>
        extract_metrics_from_db d = Inr metrics \<longrightarrow>
        manifest_main [[row]] dbs old
          = (None, Some [map PyStr fieldnames, dict_row (out_row row 0 metrics)])
        \<and> fieldnames ! 5 = ''channel''
        \<and> dict_row (out_row row 0 metrics) ! 5 = PyInt 0)"
proof (intro conjI impI)
  show "db_name row ch =
     ''DRAMSys_'' @ tier row @ ''_id'' @ config_id row @ ''_'' @ path_stem (trace_name row)
       @ ''_'' @ path_stem (simconfig row) @ ''_ch'' @ str_of_nat ch @ ''.tdb''"
    by (simp add: db_name_def sim_id_of_def)
  show "row_loop dbs [row] out = channel_loop dbs row [0, 1, 2, 3] out"
    by (cases "channel_loop dbs row [0, 1, 2, 3] out")
       (auto simp: channels_0_3 split: option.splits)
  show "fieldnames ! 5 = ''channel''"
    by (simp add: fieldnames_def)
next
  assume "dbs (db_name row ch) = None"
  then show "channel_loop dbs row (ch # chs) out = channel_loop dbs row chs out"
    by simp
next
  assume "dbs (db_name row 0) = Some d" and "\<forall>ch\<in>{1, 2, 3}. dbs (db_name row ch) = None"
    and "extract_metrics_from_db d = Inr metrics"
  then show "manifest_main [[row]] dbs old
          = (None, Some [map PyStr fieldnames, dict_row (out_row row 0 metrics)])"
    by (rule only_channel0_row)
next
  assume "extract_metrics_from_db d = Inr metrics"
  then show "dict_row (out_row row 0 metrics) ! 5 = PyInt 0"
    using channel_of_row[of d metrics row 0] by simp
qed

text \<open>
  The claim as it was stated fails: only the database of channel 0 exists, it lacks
  tables, and no row is written: the run ends with \<^verbatim>\<open>OperationalError\<close> after the
  header.
\<close>

theorem manifest_channels_counterexample:
  "db_name example_row 0 = ''DRAMSys_lpddr4_id4386_ai_cpu_trace_example_ddr4_ch0.tdb''
   \<and> only_channel0 bandwidth_only (db_name example_row 0)
       = Some (Inr (sqlite_cursor bandwidth_only))
   \<and> only_channel0 bandwidth_only (db_name example_row 1) = None
   \<and> only_channel0 bandwidth_only (db_name example_row 2) = None
   \<and> only_channel0 bandwidth_only (db_name example_row 3) = None
   \<and> manifest_main [[example_row]] (only_channel0 bandwidth_only) None
       = (Some (SqliteError OperationalError), Some [map PyStr fieldnames])"
proof -
  have n: "db_name example_row 0 = ''DRAMSys_lpddr4_id4386_ai_cpu_trace_example_ddr4_ch0.tdb''"
    "db_name example_row 1 = ''DRAMSys_lpddr4_id4386_ai_cpu_trace_example_ddr4_ch1.tdb''"
    "db_name example_row 2 = ''DRAMSys_lpddr4_id4386_ai_cpu_trace_example_ddr4_ch2.tdb''"
    "db_name example_row 3 = ''DRAMSys_lpddr4_id4386_ai_cpu_trace_example_ddr4_ch3.tdb''"
    by code_simp+
  have m: "manifest_main [[example_row]] (only_channel0 bandwidth_only) None
       = (Some (SqliteError OperationalError), Some [map PyStr fieldnames])"
    by code_simp
  show ?thesis
    unfolding n using m by (simp add: only_channel0_def)
qed

theorem manifest_channels_witness:
  "db_name example_row 0 = ''DRAMSys_lpddr4_id4386_ai_cpu_trace_example_ddr4_ch0.tdb''
   \<and> channel_loop (only_channel0 full_db) example_row [1, 2] [] = (None, [])
   \<and> manifest_main [[example_row]] (only_channel0 full_db) None
       = (None, Some [map PyStr fieldnames,
            [PyStr ''lpddr4'', PyStr ''4386'', PyStr ''lpddr4_id4386_ai_cpu_trace_example'',
             PyStr ''ai_cpu_trace_example.trace'', PyStr ''ddr4.json'', PyInt 0,
             PyFloat 3, PyFloat 4, PyInt 20, PyNone, PyNone, PyFloat 3, PyInt 3,
             PyInt 3, PyInt 2, PyInt 1, PyInt 625, PyStr ''PS'', PyStr [], PyStr [],
             PyStr []]])"
proof -
  let ?dbs = "only_channel0 full_db"
  have n: "db_name example_row 0 = ''DRAMSys_lpddr4_id4386_ai_cpu_trace_example_ddr4_ch0.tdb''"
    "db_name example_row 1 = ''DRAMSys_lpddr4_id4386_ai_cpu_trace_example_ddr4_ch1.tdb''"
    "db_name example_row 2 = ''DRAMSys_lpddr4_id4386_ai_cpu_trace_example_ddr4_ch2.tdb''"
    "db_name example_row 3 = ''DRAMSys_lpddr4_id4386_ai_cpu_trace_example_ddr4_ch3.tdb''"
    by code_simp+
  have h1: "?dbs (db_name example_row 0) = Some (Inr (sqlite_cursor full_db))"
    unfolding n by (simp add: only_channel0_def)
  have h2: "\<forall>ch\<in>{1, 2, 3}. ?dbs (db_name example_row ch) = None"
    using n by (simp add: only_channel0_def)
  have h3: "extract_metrics_from_db (Inr (sqlite_cursor full_db)) = Inr full_db_metrics"
    by code_simp
  have r: "dict_row (out_row example_row 0 full_db_metrics) =
            [PyStr ''lpddr4'', PyStr ''4386'', PyStr ''lpddr4_id4386_ai_cpu_trace_example'',
             PyStr ''ai_cpu_trace_example.trace'', PyStr ''ddr4.json'', PyInt 0,
             PyFloat 3, PyFloat 4, PyInt 20, PyNone, PyNone, PyFloat 3, PyInt 3,
             PyInt 3, PyInt 2, PyInt 1, PyInt 625, PyStr ''PS'', PyStr [], PyStr [],
             PyStr []]"
    by code_simp
  have s1: "channel_loop ?dbs example_row [1, 2] [] = channel_loop ?dbs example_row [2] []"
    using manifest_channels [of example_row 1 ?dbs "[]" "[2]"] h2 by blast
  have s2: "channel_loop ?dbs example_row [2] [] = channel_loop ?dbs example_row [] []"
    using manifest_channels [of example_row 2 ?dbs "[]" "[]"] h2 by blast
  have s: "channel_loop ?dbs example_row [1, 2] [] = (None, [])"
    unfolding s1 s2 by simp
  have m: "manifest_main [[example_row]] ?dbs None
      = (None, Some [map PyStr fieldnames, dict_row (out_row example_row 0 full_db_metrics)])"
    using manifest_channels [of example_row 0 ?dbs "[]" "[]" "Inr (sqlite_cursor full_db)"
        full_db_metrics None] h1 h2 h3 by blast
  show ?thesis
    using n(1) s m unfolding r by simp
qed

section \<open>Properties of the glob-based extractor\<close>










section \<open>The summary file of the manifest-based extractor\<close>

lemma channel_loop_appends:
  "\<exists>rows. snd (channel_loop dbs row chs out) = out @ rows"
proof (induction chs arbitrary: out)
  case Nil
  then show ?case by simp
next
  case (Cons ch chs)
  show ?case
  proof (cases "dbs (db_name row ch)")
    case None
    then show ?thesis using Cons.IH[of out] by simp
  next
    case (Some db)
    show ?thesis
    proof (cases "extract_metrics_from_db db")
      case (Inl x)
      with Some show ?thesis by simp
    next
      case (Inr metrics)
      from Cons.IH[of "out @ [dict_row (out_row row ch metrics)]"]
      obtain rows where "snd (channel_loop dbs row chs (out @ [dict_row (out_row row ch metrics)]))
          = (out @ [dict_row (out_row row ch metrics)]) @ rows"
        by blast
      with Some Inr show ?thesis by simp
    qed
  qed
qed

lemma row_loop_appends:
  "\<exists>rows. snd (row_loop dbs rs out) = out @ rows"
proof (induction rs arbitrary: out)
  case Nil
  then show ?case by simp
next
  case (Cons r rs)
  obtain x out' where c: "channel_loop dbs r [0 ..< 4] out = (x, out')"
    by (cases "channel_loop dbs r [0 ..< 4] out")
  from channel_loop_appends[of dbs r "[0 ..< 4]" out] c
  obtain rows where o: "out' = out @ rows" by auto
  show ?case
  proof (cases x)
    case None
    from Cons.IH[of out'] obtain rows' where "snd (row_loop dbs rs out') = out' @ rows'"
      by blast
    with None c o show ?thesis by simp
  next
    case (Some e)
    with c o show ?thesis by simp
  qed
qed

lemma manifest_loop_appends:
  "\<exists>rows. snd (manifest_loop dbs ms out) = out @ rows"
proof (induction ms arbitrary: out)
  case Nil
  then show ?case by simp
next
  case (Cons m ms)
  obtain x out' where c: "row_loop dbs m out = (x, out')"
    by (cases "row_loop dbs m out")
  from row_loop_appends[of dbs m out] c
  obtain rows where o: "out' = out @ rows" by auto
  show ?case
  proof (cases x)
    case None
    from Cons.IH[of out'] obtain rows' where "snd (manifest_loop dbs ms out') = out' @ rows'"
      by blast
    with None c o show ?thesis by simp
  next
    case (Some e)
    with c o show ?thesis by simp
  qed
qed

text \<open>
  Claim C9. With no manifest found, \<^verbatim>\<open>main\<close> of the manifest-based extractor raises
  \<^verbatim>\<open>SystemExit\<close> and the summary file is what it was before: not created when there was
  none, not truncated when there was one. With a manifest, by contrast, the summary file
  is written anew, starting with the header.
\<close>

theorem manifest_main_no_manifests:
  "manifest_main [] dbs old = (Some SystemExit, old)
   \<and> (manifest_files \<noteq> [] \<longrightarrow>
        (\<exists>x rows. manifest_main manifest_files dbs old
           = (x, Some (map PyStr fieldnames # rows))))"
proof (intro conjI impI)
  show "manifest_main [] dbs old = (Some SystemExit, old)"
    by (simp add: manifest_main_def)
next
  assume ne: "manifest_files \<noteq> []"
  obtain x out where l: "manifest_loop dbs manifest_files [map PyStr fieldnames] = (x, out)"
    by (cases "manifest_loop dbs manifest_files [map PyStr fieldnames]")
  from manifest_loop_appends[of dbs manifest_files "[map PyStr fieldnames]"] l
  obtain rows where "out = [map PyStr fieldnames] @ rows" by auto
  with ne l show "\<exists>x rows. manifest_main manifest_files dbs old
           = (x, Some (map PyStr fieldnames # rows))"
    by (simp add: manifest_main_def)
qed

theorem manifest_main_no_manifests_witness:
  "manifest_main [] (only_channel0 full_db) (Some stale_summary)
     = (Some SystemExit, Some stale_summary)
   \<and> [[example_row]] \<noteq> []
   \<and> (\<exists>x rows. manifest_main [[example_row]] (only_channel0 full_db) (Some stale_summary)
          = (x, Some (map PyStr fieldnames # rows)))"
  using manifest_main_no_manifests [of "only_channel0 full_db" "Some stale_summary" "[[example_row]]"]
  by simp

end
